theory Spec2Isabelle
  imports Main
begin

section \<open>Strings and characters as Python sees them\<close>

text \<open>
  A Python \<^verbatim>\<open>str\<close> is modelled as a \<^typ>\<open>string\<close>; a \<^typ>\<open>char\<close> stands for the
  code point of the same number, so the model covers the code points 0 to 255.
  The character classes below are the ones of \<^verbatim>\<open>str.isspace\<close>, of the regular
  expression classes \<^verbatim>\<open>\s\<close>, \<^verbatim>\<open>\d\<close>, \<^verbatim>\<open>\w\<close> on \<^verbatim>\<open>str\<close> patterns, and of
  \<^verbatim>\<open>str.lower\<close>, on that range.
\<close>

definition code :: "char \<Rightarrow> nat" where
  "code c = of_char c"

definition newline :: char where
  "newline = CHR 0x0A"

definition is_space :: "char \<Rightarrow> bool" where
  "is_space c = ((9 \<le> code c \<and> code c \<le> 13) \<or> (28 \<le> code c \<and> code c \<le> 32)
     \<or> code c = 133 \<or> code c = 160)"

definition is_digit :: "char \<Rightarrow> bool" where
  "is_digit c = (48 \<le> code c \<and> code c \<le> 57)"

definition is_upper :: "char \<Rightarrow> bool" where
  "is_upper c = (65 \<le> code c \<and> code c \<le> 90)"

definition is_ascii_letter :: "char \<Rightarrow> bool" where
  "is_ascii_letter c = (is_upper c \<or> (97 \<le> code c \<and> code c \<le> 122))"

definition is_ident_start :: "char \<Rightarrow> bool" where
  "is_ident_start c = (is_ascii_letter c \<or> c = CHR ''_'')"

definition is_ident_char :: "char \<Rightarrow> bool" where
  "is_ident_char c = (is_ascii_letter c \<or> is_digit c \<or> c = CHR ''_'')"

text \<open>\<^verbatim>\<open>\w\<close>: the ASCII identifier characters and the alphanumeric code points
  between 128 and 255.\<close>

definition is_word_char :: "char \<Rightarrow> bool" where
  "is_word_char c = (is_ident_char c
     \<or> code c \<in> {170, 178, 179, 181, 185, 186, 188, 189, 190}
     \<or> (192 \<le> code c \<and> code c \<le> 214) \<or> (216 \<le> code c \<and> code c \<le> 246)
     \<or> 248 \<le> code c)"

text \<open>\<^verbatim>\<open>str.lower\<close> on one character: the upper-case letters (A to Z, and 192 to 222
  except 215) move up by 32, which sets the bit of weight 32.\<close>

definition lower_char :: "char \<Rightarrow> char" where
  "lower_char c =
     (if is_upper c \<or> (192 \<le> code c \<and> code c \<le> 222 \<and> code c \<noteq> 215)
      then (case c of Char b0 b1 b2 b3 b4 b5 b6 b7 \<Rightarrow> Char b0 b1 b2 b3 b4 True b6 b7)
      else c)"

definition lower :: "string \<Rightarrow> string" where
  "lower s = map lower_char s"

definition lstrip :: "string \<Rightarrow> string" where
  "lstrip s = dropWhile is_space s"

definition rstrip :: "string \<Rightarrow> string" where
  "rstrip s = rev (dropWhile is_space (rev s))"

definition strip :: "string \<Rightarrow> string" where
  "strip s = rstrip (lstrip s)"

definition startswith :: "string \<Rightarrow> string \<Rightarrow> bool" where
  "startswith s p = (take (length p) s = p)"

text \<open>\<^verbatim>\<open>p in s\<close> on strings.\<close>

fun contains :: "string \<Rightarrow> string \<Rightarrow> bool" where
  "contains [] p = (p = [])"
| "contains (c # cs) p = (startswith (c # cs) p \<or> contains cs p)"

text \<open>\<^verbatim>\<open>line.split("|||")\<close>: the pieces between the non-overlapping occurrences of
  the delimiter, found from the left; \<open>acc\<close> holds the current piece, reversed.\<close>

fun split_delim :: "string \<Rightarrow> string \<Rightarrow> string list" where
  "split_delim acc (a # b # c # cs) =
     (if a = CHR ''|'' \<and> b = CHR ''|'' \<and> c = CHR ''|''
      then rev acc # split_delim [] cs
      else split_delim (a # acc) (b # c # cs))"
| "split_delim acc cs = [rev acc @ cs]"

definition split :: "string \<Rightarrow> string list" where
  "split line = split_delim [] line"

text \<open>\<^verbatim>\<open>str(n)\<close> of an \<^verbatim>\<open>int\<close>.\<close>

definition digit_char :: "nat \<Rightarrow> char" where
  "digit_char d = ''0123456789'' ! d"

fun show_nat :: "nat \<Rightarrow> string" where
  "show_nat n = (if n < 10 then [digit_char n] else show_nat (n div 10) @ [digit_char (n mod 10)])"

declare show_nat.simps [simp del]

definition show_int :: "int \<Rightarrow> string" where
  "show_int i = (if i < 0 then CHR ''-'' # show_nat (nat (- i)) else show_nat (nat i))"

text \<open>Slicing \<^verbatim>\<open>xs[lo:hi]\<close> with step 1: a negative bound counts from the end, and
  both bounds are clamped to the list.\<close>

definition slice_index :: "nat \<Rightarrow> int \<Rightarrow> nat" where
  "slice_index n i = (if i < 0 then nat (max 0 (int n + i)) else min n (nat i))"

definition py_slice :: "'a list \<Rightarrow> int option \<Rightarrow> int option \<Rightarrow> 'a list" where
  "py_slice xs lo hi =
     (let n = length xs;
          a = (case lo of None \<Rightarrow> 0 | Some i \<Rightarrow> slice_index n i);
          b = (case hi of None \<Rightarrow> n | Some j \<Rightarrow> slice_index n j)
      in take (b - a) (drop a xs))"

section \<open>Values and the Python runtime\<close>

text \<open>
  The values the program handles are whatever \<^verbatim>\<open>eval\<close> returns and whatever the
  variable table holds (typed \<^verbatim>\<open>Any\<close>). The program tells \<^verbatim>\<open>int\<close> (with \<^verbatim>\<open>bool\<close>,
  its subclass), \<^verbatim>\<open>float\<close> and \<^verbatim>\<open>str\<close> apart with \<^verbatim>\<open>isinstance\<close>; of any other
  object it only uses \<^verbatim>\<open>str()\<close>, \<^verbatim>\<open>repr()\<close> and \<^verbatim>\<open>bool()\<close>, which \<open>PObj\<close> carries.
  Floats are a type parameter \<open>'f\<close>: their arithmetic and their decimal
  conversions belong to the runtime.
\<close>

datatype 'f pyval =
    PInt int
  | PBool bool
  | PFloat 'f
  | PStr string
  | PObj string string bool

text \<open>What a name is bound to in the environment handed to \<^verbatim>\<open>eval\<close>: the empty
  \<^verbatim>\<open>__builtins__\<close> dictionary, a library function, the \<^verbatim>\<open>re\<close> module, or a value.\<close>

datatype 'f envval =
    Builtins
  | Lib string
  | ReModule
  | Val "'f pyval"

datatype py_error = OverflowError | ValueError

text \<open>
  The builtins of Python that the program calls and that are not code of the
  program are parameters of the model:
  \<^item> \<open>py_eval text env\<close> is \<^verbatim>\<open>eval(text, env)\<close>; \<open>None\<close> means that it raised an
    \<^verbatim>\<open>Exception\<close>;
  \<^item> \<open>float_of_int n\<close> is \<^verbatim>\<open>float(n)\<close>; \<open>None\<close> is its \<^verbatim>\<open>OverflowError\<close>;
  \<^item> \<open>float_of_str s\<close> is \<^verbatim>\<open>float(s)\<close>; \<open>None\<close> is its \<^verbatim>\<open>ValueError\<close>;
  \<^item> \<open>format_2f x\<close> is \<^verbatim>\<open>f"{x:.2f}"\<close>, \<open>float_str x\<close> is \<^verbatim>\<open>str(x)\<close> and
    \<open>float_truth x\<close> is \<^verbatim>\<open>bool(x)\<close>, for a float \<open>x\<close>.
  Not modelled: an \<^verbatim>\<open>eval\<close> that does not return or that raises outside
  \<^verbatim>\<open>Exception\<close>, objects whose \<^verbatim>\<open>str()\<close>, \<^verbatim>\<open>repr()\<close> or \<^verbatim>\<open>bool()\<close> raise, and the
  interpreter's configurable limit on the digits of an \<^verbatim>\<open>int\<close> converted to \<^verbatim>\<open>str\<close>.
\<close>

record 'f runtime =
  py_eval :: "string \<Rightarrow> (string \<rightharpoonup> 'f envval) \<Rightarrow> 'f pyval option"
  float_of_int :: "int \<Rightarrow> 'f option"
  float_of_str :: "string \<Rightarrow> 'f option"
  format_2f :: "'f \<Rightarrow> string"
  float_str :: "'f \<Rightarrow> string"
  float_truth :: "'f \<Rightarrow> bool"

text \<open>\<^verbatim>\<open>repr\<close> of a \<^verbatim>\<open>str\<close>: single quotes, unless the text has a single quote and no
  double quote; the quote and the backslash are escaped, tab, newline and
  carriage return get their letter, any other unprintable character is
  \<^verbatim>\<open>\xhh\<close>.\<close>

definition hex_digit :: "nat \<Rightarrow> char" where
  "hex_digit d = ''0123456789abcdef'' ! d"

definition is_printable :: "char \<Rightarrow> bool" where
  "is_printable c = (\<not> (code c < 32 \<or> (127 \<le> code c \<and> code c \<le> 160) \<or> code c = 173))"

definition repr_char :: "char \<Rightarrow> char \<Rightarrow> string" where
  "repr_char quote c =
     (if c = quote \<or> c = CHR 0x5C then [CHR 0x5C, c]
      else if c = CHR 0x09 then [CHR 0x5C, CHR ''t'']
      else if c = CHR 0x0A then [CHR 0x5C, CHR ''n'']
      else if c = CHR 0x0D then [CHR 0x5C, CHR ''r'']
      else if \<not> is_printable c
        then [CHR 0x5C, CHR ''x'', hex_digit (code c div 16), hex_digit (code c mod 16)]
      else [c])"

definition repr_str :: "string \<Rightarrow> string" where
  "repr_str s =
     (let quote = (if CHR 0x27 \<in> set s \<and> CHR 0x22 \<notin> set s then CHR 0x22 else CHR 0x27)
      in quote # concat (map (repr_char quote) s) @ [quote])"

definition py_str :: "'f runtime \<Rightarrow> 'f pyval \<Rightarrow> string" where
  "py_str rt v =
     (case v of
        PInt n \<Rightarrow> show_int n
      | PBool b \<Rightarrow> (if b then ''True'' else ''False'')
      | PFloat x \<Rightarrow> float_str rt x
      | PStr s \<Rightarrow> s
      | PObj s r t \<Rightarrow> s)"

definition py_repr :: "'f runtime \<Rightarrow> 'f pyval \<Rightarrow> string" where
  "py_repr rt v =
     (case v of
        PInt n \<Rightarrow> show_int n
      | PBool b \<Rightarrow> (if b then ''True'' else ''False'')
      | PFloat x \<Rightarrow> float_str rt x
      | PStr s \<Rightarrow> repr_str s
      | PObj s r t \<Rightarrow> r)"

definition py_bool :: "'f runtime \<Rightarrow> 'f pyval \<Rightarrow> bool" where
  "py_bool rt v =
     (case v of
        PInt n \<Rightarrow> n \<noteq> 0
      | PBool b \<Rightarrow> b
      | PFloat x \<Rightarrow> float_truth rt x
      | PStr s \<Rightarrow> s \<noteq> []
      | PObj s r t \<Rightarrow> t)"

section \<open>Value model: \<^verbatim>\<open>is_numeric_string\<close> and \<^verbatim>\<open>round2_if_numeric\<close>\<close>

text \<open>The pieces of the pattern \<^verbatim>\<open>^-?\d+\.?\d*(e[+-]?\d+)?$\<close>, matched with
  \<^verbatim>\<open>re.IGNORECASE\<close>. \<open>opt_char p s\<close> takes one optional character; \<open>at_dollar\<close> is
  \<^verbatim>\<open>$\<close>, which holds at the end and before a final newline.\<close>

definition opt_char :: "(char \<Rightarrow> bool) \<Rightarrow> string \<Rightarrow> string" where
  "opt_char p s = (case s of [] \<Rightarrow> [] | c # cs \<Rightarrow> if p c then cs else c # cs)"

definition at_dollar :: "string \<Rightarrow> bool" where
  "at_dollar s = (s = [] \<or> s = [newline])"

definition exponent_ok :: "string \<Rightarrow> bool" where
  "exponent_ok s =
     (at_dollar s \<or>
      (case s of
         [] \<Rightarrow> False
       | c # cs \<Rightarrow>
           (c = CHR ''e'' \<or> c = CHR ''E'') \<and>
           (let r = opt_char (\<lambda>c. c = CHR ''+'' \<or> c = CHR ''-'') cs
            in takeWhile is_digit r \<noteq> [] \<and> at_dollar (dropWhile is_digit r))))"

definition is_numeric_string :: "string \<Rightarrow> bool" where
  "is_numeric_string s =
     (let r0 = opt_char (\<lambda>c. c = CHR ''-'') s
      in takeWhile is_digit r0 \<noteq> [] \<and>
         exponent_ok (dropWhile is_digit (opt_char (\<lambda>c. c = CHR ''.'') (dropWhile is_digit r0))))"

text \<open>\<^verbatim>\<open>float(f"{x:.2f}")\<close> for a float \<open>x\<close>.\<close>

definition two_decimals :: "'f runtime \<Rightarrow> 'f \<Rightarrow> 'f option" where
  "two_decimals rt x = float_of_str rt (format_2f rt x)"

text \<open>\<^verbatim>\<open>"version" not in expr_text.lower()\<close>, negated.\<close>

definition mentions_version :: "string \<Rightarrow> bool" where
  "mentions_version expr_text = contains (lower expr_text) ''version''"

text \<open>In the numeric branch nothing catches an exception of the conversions;
  in the string branch \<^verbatim>\<open>except Exception\<close> returns the value unchanged.\<close>

definition round2_number :: "'f runtime \<Rightarrow> 'f option \<Rightarrow> py_error + 'f pyval" where
  "round2_number rt fx =
     (case fx of
        None \<Rightarrow> Inl OverflowError
      | Some x \<Rightarrow> (case two_decimals rt x of None \<Rightarrow> Inl ValueError | Some y \<Rightarrow> Inr (PFloat y)))"

definition round2_if_numeric :: "'f runtime \<Rightarrow> 'f pyval \<Rightarrow> string \<Rightarrow> py_error + 'f pyval" where
  "round2_if_numeric rt v expr_text =
     (case v of
        PInt n \<Rightarrow> round2_number rt (float_of_int rt n)
      | PBool b \<Rightarrow> round2_number rt (float_of_int rt (if b then 1 else 0))
      | PFloat x \<Rightarrow> round2_number rt (Some x)
      | PStr s \<Rightarrow>
          (if \<not> mentions_version expr_text \<and> is_numeric_string s
           then (case float_of_str rt s of
                   None \<Rightarrow> Inr v
                 | Some x \<Rightarrow> (case two_decimals rt x of None \<Rightarrow> Inr v | Some y \<Rightarrow> Inr (PFloat y)))
           else Inr v)
      | PObj s r t \<Rightarrow> Inr v)"

section \<open>Expression helpers: \<^verbatim>\<open>substr\<close> and the evaluation environment\<close>

definition substr :: "'f runtime \<Rightarrow> 'f pyval \<Rightarrow> int \<Rightarrow> int option \<Rightarrow> string" where
  "substr rt s start len =
     (let text = py_str rt s
      in case len of
           None \<Rightarrow> py_slice text (Some start) None
         | Some l \<Rightarrow> py_slice text (Some start) (Some (start + l)))"

text \<open>\<^verbatim>\<open>build_safe_eval_env\<close>: the fixed name table, updated with the extra
  variables. The helpers are bound by name; of their bodies only \<open>substr\<close> is
  modelled.\<close>

definition safe_names :: "(string \<times> 'f envval) list" where
  "safe_names =
     [(''__builtins__'', Builtins),
      (''abs'', Lib ''abs''), (''min'', Lib ''min''), (''max'', Lib ''max''),
      (''int'', Lib ''int''), (''float'', Lib ''float''), (''round'', Lib ''round''),
      (''len'', Lib ''len''),
      (''hr_bytime'', Lib ''hr_bytime''), (''hr_bytes'', Lib ''hr_bytes''),
      (''hr_num'', Lib ''hr_num''), (''pretty_uptime'', Lib ''pretty_uptime''),
      (''substr'', Lib ''substr'')]"

definition build_safe_eval_env :: "(string \<rightharpoonup> 'f envval) \<Rightarrow> (string \<rightharpoonup> 'f envval)" where
  "build_safe_eval_env extra_vars = map_of safe_names ++ extra_vars"

section \<open>Substitution engine\<close>

text \<open>
  \<^verbatim>\<open>re.sub(r"\b([A-Za-z_][A-Za-z0-9_]*)\b", repl, expr)\<close>. A word boundary \<^verbatim>\<open>\b\<close>
  lies only between a \<^verbatim>\<open>\w\<close> character and a character that is not one (or an
  end of the text), so a match starts where a maximal run of \<^verbatim>\<open>\w\<close> characters
  starts and ends where that run ends: the matches are the maximal runs of \<^verbatim>\<open>\w\<close>
  characters that are, as a whole, an identifier of letters, digits and
  underscores. \<open>sub_scan\<close> walks the text with the current run (reversed) and
  hands every finished run to \<open>flush\<close>.
\<close>

definition is_identifier :: "string \<Rightarrow> bool" where
  "is_identifier w = (case w of [] \<Rightarrow> False | c # cs \<Rightarrow> is_ident_start c \<and> list_all is_ident_char cs)"

text \<open>The inner function \<^verbatim>\<open>repl\<close>, on the matched word.\<close>

definition repl :: "'f runtime \<Rightarrow> (string \<rightharpoonup> 'f pyval) \<Rightarrow> string \<Rightarrow> string" where
  "repl rt variables word =
     (case variables word of
        None \<Rightarrow> word
      | Some v \<Rightarrow>
          (case v of
             PInt n \<Rightarrow> py_str rt v
           | PBool b \<Rightarrow> py_str rt v
           | PFloat x \<Rightarrow> py_str rt v
           | PStr s \<Rightarrow> (if is_numeric_string s then s else py_repr rt v)
           | PObj s r t \<Rightarrow> py_repr rt v))"

definition flush :: "'f runtime \<Rightarrow> (string \<rightharpoonup> 'f pyval) \<Rightarrow> string \<Rightarrow> string" where
  "flush rt variables w = (if is_identifier w then repl rt variables w else w)"

fun sub_scan :: "'f runtime \<Rightarrow> (string \<rightharpoonup> 'f pyval) \<Rightarrow> string \<Rightarrow> string \<Rightarrow> string" where
  "sub_scan rt variables run [] = flush rt variables (rev run)"
| "sub_scan rt variables run (c # cs) =
     (if is_word_char c then sub_scan rt variables (c # run) cs
      else flush rt variables (rev run) @ c # sub_scan rt variables [] cs)"

definition substitute_expr_variables ::
  "'f runtime \<Rightarrow> string \<Rightarrow> (string \<rightharpoonup> 'f pyval) \<Rightarrow> string" where
  "substitute_expr_variables rt expr variables = sub_scan rt variables [] expr"

section \<open>Condition compiler\<close>

text \<open>
  The two patterns \<^verbatim>\<open>=~\s*/(.+?)/([a-zA-Z]*)$\<close> and \<^verbatim>\<open>!~\s*/(.+?)/([a-zA-Z]*)$\<close>, matched
  at the start of the text. After the operator, the blanks and the opening
  slash, \<open>find_close\<close> looks for the first slash that has at least one
  character before it (none of them a newline, which \<^verbatim>\<open>.\<close> does not match) and
  only letters up to \<^verbatim>\<open>$\<close> behind it: the lazy \<^verbatim>\<open>(.+?)\<close> stops there. It returns the
  two groups.
\<close>

fun find_close :: "string \<Rightarrow> string \<Rightarrow> (string \<times> string) option" where
  "find_close acc [] = None"
| "find_close acc (c # cs) =
     (if c = CHR ''/'' \<and> acc \<noteq> [] \<and> at_dollar (dropWhile is_ascii_letter cs)
      then Some (rev acc, takeWhile is_ascii_letter cs)
      else if c = newline then None
      else find_close (c # acc) cs)"

definition regex_condition :: "string \<Rightarrow> string \<Rightarrow> (string \<times> string) option" where
  "regex_condition operator text =
     (if startswith text operator
      then (case lstrip (drop 2 text) of
              [] \<Rightarrow> None
            | c # t \<Rightarrow> if c = CHR ''/'' then find_close [] t else None)
      else None)"

definition flags_expr :: "string \<Rightarrow> string" where
  "flags_expr flags = (if flags \<noteq> [] \<and> CHR ''i'' \<in> set (lower flags) then ''re.I'' else ''0'')"

definition search_call :: "string \<Rightarrow> string \<Rightarrow> string \<Rightarrow> string" where
  "search_call pattern value_alias flags =
     ''re.search(r'' @ [CHR 0x27] @ pattern @ [CHR 0x27] @ '', str('' @ value_alias @ ''), ''
       @ flags_expr flags @ '')''"

definition build_condition_expression :: "string \<Rightarrow> string \<Rightarrow> string" where
  "build_condition_expression comp_text value_alias =
     (let text = strip comp_text
      in case regex_condition ''=~'' text of
           Some (pattern, flags) \<Rightarrow> search_call pattern value_alias flags @ '' is not None''
         | None \<Rightarrow>
        (case regex_condition ''!~'' text of
           Some (pattern, flags) \<Rightarrow> search_call pattern value_alias flags @ '' is None''
         | None \<Rightarrow>
            if startswith text ''eq '' then value_alias @ '' == '' @ strip (drop 3 text)
            else if startswith text ''ne '' then value_alias @ '' != '' @ strip (drop 3 text)
            else if startswith text ''.'' then ''str('' @ value_alias @ '')'' @ text
            else if (case text of [] \<Rightarrow> False | c # cs \<Rightarrow> c \<in> set ''<>!='')
              then value_alias @ '' '' @ text
            else text))"

section \<open>Rule processor\<close>

text \<open>\<^verbatim>\<open>parse_config_line\<close>; \<open>None\<close> is its \<^verbatim>\<open>ValueError\<close>.\<close>

definition parse_config_line :: "string \<Rightarrow> (string \<times> string \<times> string \<times> string) option" where
  "parse_config_line line =
     (case split line of
        [label, cond, expr, output] \<Rightarrow> Some (strip label, strip cond, strip expr, strip output)
      | _ \<Rightarrow> None)"

text \<open>
  The category pattern \<^verbatim>\<open>^\s*#\s*Category\s*:\s*(.+?)\s*$\<close> with \<^verbatim>\<open>re.IGNORECASE\<close>.
  Up to the colon nothing can be matched in two ways. Behind the colon,
  \<open>lazy_name\<close> gives the group: when the rest has a character that is not
  white space, the greedy \<^verbatim>\<open>\s*\<close> takes the leading blanks and the lazy group
  grows until only blanks follow, so the group is the rest without its
  surrounding blanks, and there is no match when that has a newline; when the
  rest is all white space, \<^verbatim>\<open>\s*\<close> gives characters back until the group finds
  one that \<^verbatim>\<open>.\<close> matches, so the group is the last character of the rest that is
  not a newline.
\<close>

definition expect_char :: "char \<Rightarrow> string \<Rightarrow> string option" where
  "expect_char k s = (case s of [] \<Rightarrow> None | c # cs \<Rightarrow> if c = k then Some cs else None)"

fun expect_nocase :: "string \<Rightarrow> string \<Rightarrow> string option" where
  "expect_nocase [] s = Some s"
| "expect_nocase (k # ks) [] = None"
| "expect_nocase (k # ks) (c # cs) = (if lower_char c = k then expect_nocase ks cs else None)"

definition lazy_name :: "string \<Rightarrow> string option" where
  "lazy_name r =
     (let body = strip r
      in if body \<noteq> [] then (if newline \<in> set body then None else Some body)
         else (case filter (\<lambda>c. c \<noteq> newline) r of [] \<Rightarrow> None | c # cs \<Rightarrow> Some [last (c # cs)]))"

definition match_category :: "string \<Rightarrow> string option" where
  "match_category raw =
     (case expect_char (CHR ''#'') (lstrip raw) of
        None \<Rightarrow> None
      | Some r1 \<Rightarrow>
     (case expect_nocase ''category'' (lstrip r1) of
        None \<Rightarrow> None
      | Some r2 \<Rightarrow>
     (case expect_char (CHR '':'') (lstrip r2) of
        None \<Rightarrow> None
      | Some r3 \<Rightarrow> lazy_name r3)))"

text \<open>The state of the loop of \<^verbatim>\<open>evaluate_and_print\<close>: what has been printed (one
  entry for each call of \<^verbatim>\<open>print\<close>, without the newline that \<^verbatim>\<open>print\<close> adds), the
  recommendation pairs, and the active category.\<close>

record state =
  printed :: "string list"
  recommendation_pairs :: "(string \<times> string) list"
  current_category :: string

definition say :: "string list \<Rightarrow> state \<Rightarrow> state" where
  "say msgs s = s\<lparr>printed := printed s @ msgs\<rparr>"

definition category_output :: "string \<Rightarrow> string \<Rightarrow> string" where
  "category_output output_mode category =
     (if output_mode = ''csv'' then ''Category,'' @ category else newline # category)"

definition comment_line :: "string \<Rightarrow> state \<Rightarrow> string \<Rightarrow> state" where
  "comment_line output_mode s raw =
     (if \<not> contains raw ''|||''
      then (case match_category raw of
              None \<Rightarrow> s
            | Some category_text \<Rightarrow>
                if category_text \<noteq> [] \<and> category_text \<noteq> current_category s
                then say [category_output output_mode category_text]
                       (s\<lparr>current_category := category_text\<rparr>)
                else s)
      else s)"

text \<open>The derived value: \<^verbatim>\<open>eval\<close> of the substituted text in the bare
  environment, and the substituted text itself when that raises.\<close>

definition derived_value :: "'f runtime \<Rightarrow> string \<Rightarrow> 'f pyval" where
  "derived_value rt parsed_expr =
     (case py_eval rt parsed_expr (build_safe_eval_env Map.empty) of
        None \<Rightarrow> PStr parsed_expr
      | Some v \<Rightarrow> v)"

definition metric_line ::
  "'f runtime \<Rightarrow> string \<Rightarrow> string \<Rightarrow> 'f pyval \<Rightarrow> string \<Rightarrow> py_error + string" where
  "metric_line rt output_mode label v expr =
     (if output_mode = ''csv'' then Inr (label @ '','' @ py_str rt v)
      else (case round2_if_numeric rt v expr of
              Inl e \<Rightarrow> Inl e
            | Inr d \<Rightarrow> Inr (label @ '': '' @ py_str rt d)))"

definition condition_ok :: "'f runtime \<Rightarrow> string \<Rightarrow> 'f pyval \<Rightarrow> bool" where
  "condition_ok rt cond v =
     (let comp_text = strip cond
      in if comp_text \<noteq> []
         then (case py_eval rt (build_condition_expression comp_text ''v'')
                      (build_safe_eval_env [''re'' \<mapsto> ReModule, ''v'' \<mapsto> Val v, ''_'' \<mapsto> Val v]) of
                 None \<Rightarrow> False
               | Some r \<Rightarrow> py_bool rt r)
         else False)"

text \<open>One rule. An exception of the display rounding ends the run: the result
  is then \<open>Inl\<close> of the exception and the state reached.\<close>

definition rule_line ::
  "'f runtime \<Rightarrow> (string \<rightharpoonup> 'f pyval) \<Rightarrow> string \<Rightarrow> bool \<Rightarrow> state
     \<Rightarrow> string \<times> string \<times> string \<times> string \<Rightarrow> py_error \<times> state + state" where
  "rule_line rt variables output_mode debug s rule =
     (case rule of (label, cond, expr, output_text) \<Rightarrow>
        let parsed_expr = substitute_expr_variables rt expr variables;
            v = derived_value rt parsed_expr;
            s1 = say (if debug
                      then [''expr starts as '' @ expr,
                            ''expr after parsing is '' @ parsed_expr,
                            ''expr evals to '' @ [CHR 0x27] @ py_str rt v @ [CHR 0x27]]
                      else []) s
        in case metric_line rt output_mode label v expr of
             Inl e \<Rightarrow> Inl (e, s1)
           | Inr displayed_metric_line \<Rightarrow>
               let s2 = say [displayed_metric_line] s1
               in if condition_ok rt cond v
                  then Inr ((say (if debug then [CHR 0x09 # label @ '' matches '' @ strip cond] else []) s2)
                         \<lparr>recommendation_pairs :=
                            recommendation_pairs s2 @ [(displayed_metric_line, output_text)]\<rparr>)
                  else Inr s2)"

definition process_line ::
  "'f runtime \<Rightarrow> (string \<rightharpoonup> 'f pyval) \<Rightarrow> string \<Rightarrow> bool \<Rightarrow> state \<Rightarrow> string
     \<Rightarrow> py_error \<times> state + state" where
  "process_line rt variables output_mode debug s raw =
     (if strip raw = [] then Inr s
      else if startswith (lstrip raw) ''#'' then Inr (comment_line output_mode s raw)
      else (case parse_config_line raw of
              None \<Rightarrow> Inr s
            | Some rule \<Rightarrow> rule_line rt variables output_mode debug s rule))"

fun process_lines ::
  "'f runtime \<Rightarrow> (string \<rightharpoonup> 'f pyval) \<Rightarrow> string \<Rightarrow> bool \<Rightarrow> state \<Rightarrow> string list
     \<Rightarrow> py_error \<times> state + state" where
  "process_lines rt variables output_mode debug s [] = Inr s"
| "process_lines rt variables output_mode debug s (raw # lines) =
     (case process_line rt variables output_mode debug s raw of
        Inl a \<Rightarrow> Inl a
      | Inr s' \<Rightarrow> process_lines rt variables output_mode debug s' lines)"

definition recommendation_section :: "string \<Rightarrow> bool \<Rightarrow> (string \<times> string) list \<Rightarrow> string list" where
  "recommendation_section output_mode show_recommendations pairs =
     (if show_recommendations \<and> pairs \<noteq> []
      then ([newline, newline] @ ''RECOMMENDATIONS:'') #
           (if output_mode = ''csv''
            then concat (map (\<lambda>(metric_line, rec_text). [metric_line, ''Recommendation,'' @ rec_text]) pairs)
            else concat (map (\<lambda>(metric_line, rec_text).
                   [[CHR 0x1B] @ ''[1m'' @ metric_line @ [CHR 0x1B] @ ''[0m'', rec_text, []]) pairs))
      else [])"

definition initial_state :: state where
  "initial_state = \<lparr>printed = [], recommendation_pairs = [], current_category = []\<rparr>"

text \<open>\<^verbatim>\<open>evaluate_and_print\<close>: everything printed, and the exception that ended the
  run, if one did.\<close>

definition evaluate_and_print ::
  "'f runtime \<Rightarrow> string list \<Rightarrow> (string \<rightharpoonup> 'f pyval) \<Rightarrow> string \<Rightarrow> bool \<Rightarrow> bool
     \<Rightarrow> string list \<times> py_error option" where
  "evaluate_and_print rt lines variables output_mode debug show_recommendations =
     (case process_lines rt variables output_mode debug initial_state lines of
        Inl (e, s) \<Rightarrow> (printed s, Some e)
      | Inr s \<Rightarrow>
          (printed s @ recommendation_section output_mode show_recommendations (recommendation_pairs s),
           None))"

section \<open>A concrete runtime for the closed examples\<close>

text \<open>
  The closed examples below need a runtime to run on. Its floats are the
  floats with an integer value of magnitude at most \<open>2^53\<close>, each written as that
  integer: on them \<^verbatim>\<open>float(n)\<close> is exact, \<^verbatim>\<open>f"{x:.2f}"\<close> appends \<^verbatim>\<open>.00\<close> and \<^verbatim>\<open>str(x)\<close>
  appends \<^verbatim>\<open>.0\<close>. It refuses to convert a larger \<^verbatim>\<open>int\<close>; the examples use that at
  \<open>10^400\<close> only, where \<^verbatim>\<open>float\<close> raises \<^verbatim>\<open>OverflowError\<close>. Its \<open>py_eval\<close> is a table of what \<^verbatim>\<open>eval\<close> returns on the texts the
  examples evaluate: the literals \<^verbatim>\<open>12\<close> and \<^verbatim>\<open>30\<close>, the power \<^verbatim>\<open>10**400\<close>, and the
  comparison \<^verbatim>\<open>v < 60\<close> with \<^verbatim>\<open>v\<close> bound to an \<^verbatim>\<open>int\<close>; the text \<^verbatim>\<open>08\<close> is a syntax
  error. On any other argument the table answers \<open>None\<close>, and no example
  depends on that.
\<close>

definition decimal_value :: "string \<Rightarrow> int" where
  "decimal_value ds = foldl (\<lambda>a c. 10 * a + (int (code c) - 48)) 0 ds"

definition example_float_of_str :: "string \<Rightarrow> int option" where
  "example_float_of_str s =
     (let ds = takeWhile is_digit s; r = dropWhile is_digit s
      in if ds \<noteq> [] \<and> decimal_value ds \<le> 2 ^ 53 \<and>
            (r = [] \<or> (hd r = CHR ''.'' \<and> list_all (\<lambda>c. c = CHR ''0'') (tl r)))
         then Some (decimal_value ds) else None)"

definition example_eval :: "string \<Rightarrow> (string \<rightharpoonup> int envval) \<Rightarrow> int pyval option" where
  "example_eval text env =
     (if text = ''12'' then Some (PInt 12)
      else if text = ''30'' then Some (PInt 30)
      else if text = ''10**400'' then Some (PInt (10 ^ 400))
      else if text = ''v < 60''
        then (case env ''v'' of Some (Val (PInt n)) \<Rightarrow> Some (PBool (n < 60)) | _ \<Rightarrow> None)
      else None)"

definition example_runtime :: "int runtime" where
  "example_runtime =
     \<lparr>py_eval = example_eval,
      float_of_int = (\<lambda>n. if \<bar>n\<bar> \<le> 2 ^ 53 then Some n else None),
      float_of_str = example_float_of_str,
      format_2f = (\<lambda>x. show_int x @ ''.00''),
      float_str = (\<lambda>x. show_int x @ ''.0''),
      float_truth = (\<lambda>x. x \<noteq> 0)\<rparr>"

section \<open>The substring helper\<close>

lemma substr_omitted:
  "substr rt (PStr t) start None = drop (slice_index (length t) start) t"
  by (simp add: substr_def py_str_def py_slice_def)

lemma substr_omitted_length:
  "(0 \<le> start \<longrightarrow> substr rt (PStr t) start None = drop (nat start) t) \<and>
   (start < 0 \<longrightarrow> substr rt (PStr t) start None = drop (length t - nat (- start)) t)"
proof (intro conjI impI)
  assume "0 \<le> start"
  then show "substr rt (PStr t) start None = drop (nat start) t"
    by (simp add: substr_omitted slice_index_def min_def)
next
  assume neg: "start < 0"
  have "nat (max 0 (int (length t) + start)) = length t - nat (- start)"
    using neg by (simp add: max_def) linarith
  with neg show "substr rt (PStr t) start None = drop (length t - nat (- start)) t"
    by (simp add: substr_omitted slice_index_def)
qed

lemma substr_given_length:
  assumes "0 \<le> start" and "0 \<le> l"
  shows "substr rt (PStr t) start (Some l) = take (nat l) (drop (nat start) t)"
proof (cases "length t \<le> nat start")
  case True
  then show ?thesis
    using assms by (simp add: substr_def py_str_def py_slice_def slice_index_def)
next
  case False
  then have a: "min (length t) (nat start) = nat start" by simp
  have b: "nat (start + l) = nat start + nat l"
    using assms by (simp add: nat_add_distrib)
  show ?thesis
  proof (cases "nat start + nat l \<le> length t")
    case True
    then show ?thesis
      using assms by (simp add: substr_def py_str_def py_slice_def slice_index_def a b)
  next
    case over: False
    then have "min (length t) (nat start + nat l) = length t" by simp
    moreover have "take (nat l) (drop (nat start) t) = drop (nat start) t"
      using over by simp
    ultimately show ?thesis
      using assms by (simp add: substr_def py_str_def py_slice_def slice_index_def a b)
  qed
qed

lemma substr_negative_length_empty:
  assumes "l < 0" and "0 \<le> start + l"
  shows "substr rt (PStr t) start (Some l) = []"
proof -
  have "min (length t) (nat (start + l)) \<le> min (length t) (nat start)" and "0 \<le> start"
    using assms by (auto simp: min_def)
  then show ?thesis
    using assms by (simp add: substr_def py_str_def py_slice_def slice_index_def)
qed

text \<open>
  Claim C9: the code departs from it. The docstring of \<open>substr\<close> promises a
  substring ``Perl-like'', with an optional length, and the claim says that a
  negative length, like an omitted one, means ``to the end''. The function has
  no branch for a negative length: it slices from \<open>start\<close> to \<open>start + length\<close>.
  On the text \<^verbatim>\<open>hello\<close> with start 1, the omitted length gives the suffix
  \<^verbatim>\<open>ello\<close>, and the length \<open>-1\<close> gives the empty string.
\<close>

theorem substr_negative_length_is_not_to_end:
  "substr example_runtime (PStr ''hello'') 1 None = ''ello'' \<and>
   substr example_runtime (PStr ''hello'') 1 (Some (- 1)) = []"
  by (simp add: substr_def py_str_def py_slice_def slice_index_def)

section \<open>Display rounding\<close>

lemma round2_string_unchanged:
  "\<not> (is_numeric_string s \<and> \<not> mentions_version expr_text) \<Longrightarrow>
   round2_if_numeric rt (PStr s) expr_text = Inr (PStr s)"
  by (auto simp: round2_if_numeric_def)

text \<open>
  Claim C4. A string value is rounded to two decimals only if it is a numeric
  string and the expression text does not mention ``version'' in any letter
  case: otherwise \<open>round2_if_numeric\<close> returns it unchanged. When both hold and
  the conversions succeed, the result is the rounded float. A rule whose
  expression text mentions ``version'' and whose value is the string \<^verbatim>\<open>5.7.31\<close>
  is displayed in pretty mode with the value as it is.
\<close>

theorem display_rounding_version_exception:
  "(\<not> (is_numeric_string s \<and> \<not> mentions_version expr_text) \<longrightarrow>
      round2_if_numeric rt (PStr s) expr_text = Inr (PStr s)) \<and>
   (is_numeric_string s \<and> \<not> mentions_version expr_text \<and>
      float_of_str rt s = Some x \<and> two_decimals rt x = Some y \<longrightarrow>
      round2_if_numeric rt (PStr s) expr_text = Inr (PFloat y)) \<and>
   (mentions_version expr_text \<longrightarrow>
      metric_line rt ''pretty'' label (PStr ''5.7.31'') expr_text = Inr (label @ '': 5.7.31''))"
proof (intro conjI impI)
  assume "\<not> (is_numeric_string s \<and> \<not> mentions_version expr_text)"
  then show "round2_if_numeric rt (PStr s) expr_text = Inr (PStr s)"
    by (rule round2_string_unchanged)
next
  assume "is_numeric_string s \<and> \<not> mentions_version expr_text \<and>
      float_of_str rt s = Some x \<and> two_decimals rt x = Some y"
  then show "round2_if_numeric rt (PStr s) expr_text = Inr (PFloat y)"
    by (simp add: round2_if_numeric_def)
next
  assume "mentions_version expr_text"
  then have "round2_if_numeric rt (PStr ''5.7.31'') expr_text = Inr (PStr ''5.7.31'')"
    by (simp add: round2_string_unchanged)
  then show "metric_line rt ''pretty'' label (PStr ''5.7.31'') expr_text = Inr (label @ '': 5.7.31'')"
    by (simp add: metric_line_def py_str_def)
qed

theorem display_rounding_version_exception_witness:
  "round2_if_numeric example_runtime (PStr ''5.7'') ''substr(version, 0, 3)'' = Inr (PStr ''5.7'') \<and>
   round2_if_numeric example_runtime (PStr ''08'') ''Uptime'' = Inr (PFloat 8) \<and>
   metric_line example_runtime ''pretty'' ''Server'' (PStr ''5.7.31'') ''substr(version, 0, 6)''
     = Inr ''Server: 5.7.31''"
proof -
  have v3: "mentions_version ''substr(version, 0, 3)''" by code_simp
  have v6: "mentions_version ''substr(version, 0, 6)''" by code_simp
  have n: "is_numeric_string ''08''" by code_simp
  have u: "\<not> mentions_version ''Uptime''" by code_simp
  have f: "float_of_str example_runtime ''08'' = Some 8" by code_simp
  have t: "two_decimals example_runtime 8 = Some 8" by code_simp
  note at_version = display_rounding_version_exception
    [of "''5.7''" "''substr(version, 0, 3)''" example_runtime 8 8 "''Server''"]
  note at_uptime = display_rounding_version_exception
    [of "''08''" "''Uptime''" example_runtime 8 8 "''Server''"]
  note at_server = display_rounding_version_exception
    [of "''08''" "''substr(version, 0, 6)''" example_runtime 8 8 "''Server''"]
  have a: "round2_if_numeric example_runtime (PStr ''5.7'') ''substr(version, 0, 3)''
             = Inr (PStr ''5.7'')"
    by (rule mp [OF conjunct1 [OF at_version]]) (simp add: v3)
  have b: "round2_if_numeric example_runtime (PStr ''08'') ''Uptime'' = Inr (PFloat 8)"
    by (rule mp [OF conjunct1 [OF conjunct2 [OF at_uptime]]]) (simp add: n u f t)
  have c: "metric_line example_runtime ''pretty'' ''Server'' (PStr ''5.7.31'')
             ''substr(version, 0, 6)'' = Inr ''Server: 5.7.31''"
    using mp [OF conjunct2 [OF conjunct2 [OF at_server]] v6] by simp
  from a b c show ?thesis by (intro conjI)
qed

section \<open>Malformed lines\<close>

lemma parse_config_line_None: "parse_config_line raw = None \<longleftrightarrow> length (split raw) \<noteq> 4"
  by (auto simp: parse_config_line_def split: list.splits)

lemma process_lines_append:
  "process_lines rt vs m d s (xs @ ys) =
     (case process_lines rt vs m d s xs of Inl a \<Rightarrow> Inl a | Inr s' \<Rightarrow> process_lines rt vs m d s' ys)"
  by (induction xs arbitrary: s) (auto split: sum.splits)

text \<open>
  Claim C7. A line that is not blank, is not a comment and does not split into
  exactly four fields is skipped: the state (output, recommendations,
  category) is unchanged, and the whole run gives what it gives without that
  line, so every line after it is processed as before.
\<close>

theorem malformed_line_is_skipped:
  "strip raw \<noteq> [] \<and> \<not> startswith (lstrip raw) ''#'' \<and> length (split raw) \<noteq> 4 \<longrightarrow>
     process_line rt vs m d s raw = Inr s \<and>
     evaluate_and_print rt (before @ raw # after) vs m d sr
       = evaluate_and_print rt (before @ after) vs m d sr"
proof (intro impI)
  assume h: "strip raw \<noteq> [] \<and> \<not> startswith (lstrip raw) ''#'' \<and> length (split raw) \<noteq> 4"
  then have p: "parse_config_line raw = None"
    by (simp add: parse_config_line_None)
  with h have skip: "\<And>s. process_line rt vs m d s raw = Inr s"
    by (simp add: process_line_def)
  have "process_lines rt vs m d initial_state (before @ raw # after)
          = process_lines rt vs m d initial_state (before @ after)"
    by (simp add: process_lines_append skip split: sum.splits)
  then show "process_line rt vs m d s raw = Inr s \<and>
     evaluate_and_print rt (before @ raw # after) vs m d sr
       = evaluate_and_print rt (before @ after) vs m d sr"
    by (simp add: skip evaluate_and_print_def)
qed

theorem malformed_line_is_skipped_witness:
  "process_line example_runtime Map.empty ''csv'' False initial_state ''Broken ||| > 1 ||| Uptime''
     = Inr initial_state \<and>
   evaluate_and_print example_runtime
      [''Broken ||| > 1 ||| Uptime'', ''Up ||| ||| 30 ||| none''] Map.empty ''csv'' False True
     = ([''Up,30''], None)"
proof -
  have h: "strip ''Broken ||| > 1 ||| Uptime'' \<noteq> [] \<and>
           \<not> startswith (lstrip ''Broken ||| > 1 ||| Uptime'') ''#'' \<and>
           length (split ''Broken ||| > 1 ||| Uptime'') \<noteq> 4"
    by code_simp
  have e: "evaluate_and_print example_runtime [''Up ||| ||| 30 ||| none''] Map.empty ''csv'' False True
     = ([''Up,30''], None)"
    by code_simp
  note skipped = mp [OF malformed_line_is_skipped
      [of "''Broken ||| > 1 ||| Uptime''" example_runtime Map.empty "''csv''" False initial_state "[]"
          "[''Up ||| ||| 30 ||| none'']" True] h]
  from skipped e show ?thesis by simp
qed

section \<open>Category headers\<close>

lemma lazy_name_nonempty: "lazy_name r = Some c \<Longrightarrow> c \<noteq> []"
  by (auto simp: lazy_name_def Let_def split: if_splits list.splits)

lemma match_category_nonempty: "match_category raw = Some c \<Longrightarrow> c \<noteq> []"
  by (auto simp: match_category_def split: option.splits dest: lazy_name_nonempty)

lemma rstrip_Nil: "rstrip xs = [] \<longleftrightarrow> (\<forall>x\<in>set xs. is_space x)"
  by (simp add: rstrip_def dropWhile_eq_Nil_conv)

lemma hash_not_space: "\<not> is_space (CHR ''#'')"
  by (simp add: is_space_def code_def)

lemma comment_not_blank: "startswith (lstrip raw) ''#'' \<Longrightarrow> strip raw \<noteq> []"
proof -
  assume "startswith (lstrip raw) ''#''"
  then have "CHR ''#'' \<in> set (lstrip raw)"
    by (cases "lstrip raw") (auto simp: startswith_def)
  then show ?thesis
    using hash_not_space by (auto simp: strip_def rstrip_Nil)
qed

lemma header_step:
  assumes "startswith (lstrip raw) ''#''" "\<not> contains raw ''|||''" "match_category raw = Some c"
  shows "process_line rt vs m d s raw =
           Inr (if c = current_category s then s
                else s\<lparr>current_category := c, printed := printed s @ [category_output m c]\<rparr>)"
  using assms comment_not_blank [OF assms(1)] match_category_nonempty [OF assms(3)]
  by (simp add: process_line_def comment_line_def say_def)

lemma rule_line_category:
  "rule_line rt vs m d s rule = Inr s' \<Longrightarrow> current_category s' = current_category s"
  by (cases rule) (auto simp: rule_line_def Let_def say_def split: sum.splits if_splits)

text \<open>
  Claim C8. A category header is a comment line without the delimiter that the
  category pattern matches. On a header naming \<open>c\<close>, the category output is
  printed and the active category becomes \<open>c\<close> when \<open>c\<close> differs from the active
  category, and nothing happens when it is the same; so a second header naming
  the same category right after changes nothing, and a run over two such
  headers prints one category output. Conversely, whenever a line changes the
  active category, that line is a header naming the new category and exactly
  the category output has been printed. Every other comment (one that holds
  the delimiter, or that the category pattern does not match) and every blank
  line leaves the state as it is: nothing is printed.
\<close>

theorem category_change_exactly_on_new_name:
  "(startswith (lstrip raw) ''#'' \<and> \<not> contains raw ''|||'' \<and> match_category raw = Some c \<longrightarrow>
      process_line rt vs m d s raw =
        Inr (if c = current_category s then s
             else s\<lparr>current_category := c, printed := printed s @ [category_output m c]\<rparr>) \<and>
      (startswith (lstrip raw') ''#'' \<and> \<not> contains raw' ''|||'' \<and> match_category raw' = Some c \<longrightarrow>
         process_lines rt vs m d s [raw, raw'] = process_line rt vs m d s raw \<and>
         evaluate_and_print rt [raw, raw'] vs m d sr = ([category_output m c], None))) \<and>
   (process_line rt vs m d s line = Inr s' \<and> current_category s' \<noteq> current_category s \<longrightarrow>
      startswith (lstrip line) ''#'' \<and> \<not> contains line ''|||'' \<and>
      match_category line = Some (current_category s') \<and>
      printed s' = printed s @ [category_output m (current_category s')]) \<and>
   (startswith (lstrip plain) ''#'' \<and> (contains plain ''|||'' \<or> match_category plain = None) \<longrightarrow>
      process_line rt vs m d s plain = Inr s) \<and>
   (strip blank = [] \<longrightarrow> process_line rt vs m d s blank = Inr s)"
proof (intro conjI impI)
  assume h: "startswith (lstrip raw) ''#'' \<and> \<not> contains raw ''|||'' \<and> match_category raw = Some c"
  then show one: "process_line rt vs m d s raw =
        Inr (if c = current_category s then s
             else s\<lparr>current_category := c, printed := printed s @ [category_output m c]\<rparr>)"
    by (simp add: header_step)
  assume h': "startswith (lstrip raw') ''#'' \<and> \<not> contains raw' ''|||'' \<and> match_category raw' = Some c"
  have two: "\<And>t. process_line rt vs m d t raw' =
        Inr (if c = current_category t then t
             else t\<lparr>current_category := c, printed := printed t @ [category_output m c]\<rparr>)"
    using h' by (simp add: header_step)
  show "process_lines rt vs m d s [raw, raw'] = process_line rt vs m d s raw"
    by (simp add: one two)
  have "c \<noteq> []" using h by (auto dest: match_category_nonempty)
  then show "evaluate_and_print rt [raw, raw'] vs m d sr = ([category_output m c], None)"
    using h h' by (simp add: evaluate_and_print_def header_step initial_state_def
        recommendation_section_def)
next
  assume a: "process_line rt vs m d s line = Inr s' \<and> current_category s' \<noteq> current_category s"
  show "startswith (lstrip line) ''#''"
    using a by (auto simp: process_line_def split: if_splits option.splits dest: rule_line_category)
  then have "comment_line m s line = s'"
    using a by (auto simp: process_line_def split: if_splits)
  with a show "\<not> contains line ''|||''" "match_category line = Some (current_category s')"
      "printed s' = printed s @ [category_output m (current_category s')]"
    by (auto simp: comment_line_def say_def split: if_splits option.splits)
next
  assume p: "startswith (lstrip plain) ''#'' \<and> (contains plain ''|||'' \<or> match_category plain = None)"
  then have "strip plain \<noteq> []" by (simp add: comment_not_blank)
  with p show "process_line rt vs m d s plain = Inr s"
    by (auto simp: process_line_def comment_line_def)
next
  assume "strip blank = []"
  then show "process_line rt vs m d s blank = Inr s"
    by (simp add: process_line_def)
qed

theorem category_change_exactly_on_new_name_witness:
  "process_line example_runtime Map.empty ''pretty'' False initial_state ''# Category: Memory''
     = Inr \<lparr>printed = [newline # ''Memory''], recommendation_pairs = [],
            current_category = ''Memory''\<rparr> \<and>
   evaluate_and_print example_runtime [''# Category: Memory'', ''#category:Memory'']
       Map.empty ''pretty'' False True
     = ([newline # ''Memory''], None) \<and>
   match_category ''# Category: Memory'' = Some ''Memory'' \<and>
   process_line example_runtime Map.empty ''pretty'' False initial_state ''# tuning notes''
     = Inr initial_state \<and>
   process_line example_runtime Map.empty ''pretty'' False initial_state
       ''# Up ||| ||| 30 ||| none''
     = Inr initial_state \<and>
   process_line example_runtime Map.empty ''pretty'' False initial_state ''   ''
     = Inr initial_state"
proof -
  let ?s' = "\<lparr>printed = [newline # ''Memory''], recommendation_pairs = [],
               current_category = ''Memory''\<rparr>"
  have h: "startswith (lstrip ''# Category: Memory'') ''#'' \<and>
           \<not> contains ''# Category: Memory'' ''|||'' \<and>
           match_category ''# Category: Memory'' = Some ''Memory''"
    by code_simp
  have h': "startswith (lstrip ''#category:Memory'') ''#'' \<and>
           \<not> contains ''#category:Memory'' ''|||'' \<and>
           match_category ''#category:Memory'' = Some ''Memory''"
    by code_simp
  have plain: "startswith (lstrip ''# tuning notes'') ''#'' \<and>
           (contains ''# tuning notes'' ''|||'' \<or> match_category ''# tuning notes'' = None)"
    by code_simp
  have disabled: "startswith (lstrip ''# Up ||| ||| 30 ||| none'') ''#'' \<and>
           (contains ''# Up ||| ||| 30 ||| none'' ''|||'' \<or>
            match_category ''# Up ||| ||| 30 ||| none'' = None)"
    by code_simp
  have blank: "strip ''   '' = []"
    by code_simp
  note at_memory = category_change_exactly_on_new_name
    [of "''# Category: Memory''" "''Memory''" example_runtime Map.empty "''pretty''" False
        initial_state "''#category:Memory''" True "''# Category: Memory''" ?s'
        "''# tuning notes''" "''   ''"]
  note at_disabled = category_change_exactly_on_new_name
    [of "''# Category: Memory''" "''Memory''" example_runtime Map.empty "''pretty''" False
        initial_state "''#category:Memory''" True "''# Category: Memory''" ?s'
        "''# Up ||| ||| 30 ||| none''" "''   ''"]
  note first = mp [OF conjunct1 [OF at_memory] h]
  have a: "process_line example_runtime Map.empty ''pretty'' False initial_state ''# Category: Memory''
             = Inr ?s'"
    using conjunct1 [OF first] by (simp add: initial_state_def category_output_def)
  have b: "evaluate_and_print example_runtime [''# Category: Memory'', ''#category:Memory'']
       Map.empty ''pretty'' False True = ([newline # ''Memory''], None)"
    using conjunct2 [OF mp [OF conjunct2 [OF first] h']] by (simp add: category_output_def)
  have "current_category ?s' \<noteq> current_category initial_state"
    by (simp add: initial_state_def)
  with a have c: "match_category ''# Category: Memory'' = Some ''Memory''"
    using mp [OF conjunct1 [OF conjunct2 [OF at_memory]]] by simp
  note others = conjunct2 [OF conjunct2 [OF at_memory]]
  note e = mp [OF conjunct1 [OF others] plain]
  note f = mp [OF conjunct1 [OF conjunct2 [OF conjunct2 [OF at_disabled]]] disabled]
  note g = mp [OF conjunct2 [OF others] blank]
  from a b c e f g show ?thesis by (intro conjI)
qed

lemma space_lower: "is_space x \<Longrightarrow> lower_char x = x"
  by (auto simp: is_space_def lower_char_def is_upper_def)

lemma lower_c_not_space: "lower_char x = CHR ''c'' \<Longrightarrow> \<not> is_space x"
proof
  assume l: "lower_char x = CHR ''c''" and sp: "is_space x"
  then have "x = CHR ''c''" by (simp add: space_lower)
  with sp show False by (simp add: is_space_def code_def)
qed

lemma lstrip_blanks:
  "list_all is_space ws \<Longrightarrow> \<not> is_space c \<Longrightarrow> lstrip (ws @ c # xs) = c # xs"
  by (simp add: lstrip_def dropWhile_append3 dropWhile_eq_Nil_conv list_all_iff)

lemma expect_nocase_lower: "expect_nocase (map lower_char kw) (kw @ r) = Some r"
  by (induction kw) auto

lemma lazy_name_strip:
  "strip r \<noteq> [] \<Longrightarrow> newline \<notin> set (strip r) \<Longrightarrow> lazy_name r = Some (strip r)"
  by (simp add: lazy_name_def)

lemma match_category_header:
  assumes ws: "list_all is_space ws1" "list_all is_space ws2" "list_all is_space ws3"
    and kw: "lower kw = ''category''"
    and name: "strip r \<noteq> []" "newline \<notin> set (strip r)"
  shows "match_category (ws1 @ ''#'' @ ws2 @ kw @ ws3 @ '':'' @ r) = Some (strip r)"
proof -
  obtain k ks where k: "kw = k # ks" "lower_char k = CHR ''c''"
    using kw by (cases kw) (auto simp: lower_def)
  have 1: "lstrip (ws1 @ CHR ''#'' # ws2 @ kw @ ws3 @ CHR '':'' # r)
             = CHR ''#'' # ws2 @ kw @ ws3 @ CHR '':'' # r"
    using lstrip_blanks [OF ws(1), of "CHR ''#''"] by (simp add: is_space_def code_def)
  have 2: "lstrip (ws2 @ kw @ ws3 @ CHR '':'' # r) = kw @ ws3 @ CHR '':'' # r"
    using lstrip_blanks [OF ws(2) lower_c_not_space [OF k(2)]] k(1) by simp
  have 3: "expect_nocase ''category'' (kw @ ws3 @ CHR '':'' # r) = Some (ws3 @ CHR '':'' # r)"
    using expect_nocase_lower [of kw] kw by (simp add: lower_def)
  have 4: "lstrip (ws3 @ CHR '':'' # r) = CHR '':'' # r"
    using lstrip_blanks [OF ws(3), of "CHR '':''"] by (simp add: is_space_def code_def)
  show ?thesis
    using name by (simp add: match_category_def 1 2 3 4 expect_char_def lazy_name_strip)
qed

lemma header_is_comment:
  "list_all is_space ws1 \<Longrightarrow> startswith (lstrip (ws1 @ ''#'' @ rest)) ''#''"
  using lstrip_blanks [of ws1 "CHR ''#''" rest]
  by (simp add: startswith_def is_space_def code_def)

text \<open>
  Claim C10. Take a comment line without the delimiter that consists of
  optional white space, \<^verbatim>\<open>#\<close>, optional white space, the word ``category'' in
  any letter case, optional white space, a colon and a rest \<open>r\<close> that is not all
  white space (and, being part of one line, has no newline inside its name).
  It is a category header whose name is \<open>r\<close> without its surrounding white
  space, and the line changes the active category and prints the category
  output exactly when that name is not equal, character for character, to the
  active category.
\<close>

theorem category_header_detection:
  assumes "list_all is_space ws1" and "list_all is_space ws2" and "list_all is_space ws3"
    and "lower kw = ''category''"
    and "strip r \<noteq> []" and "newline \<notin> set (strip r)"
    and "raw = ws1 @ ''#'' @ ws2 @ kw @ ws3 @ '':'' @ r"
    and "\<not> contains raw ''|||''"
  shows "match_category raw = Some (strip r) \<and>
         process_line rt vs m d s raw =
           Inr (if strip r = current_category s then s
                else s\<lparr>current_category := strip r,
                       printed := printed s @ [category_output m (strip r)]\<rparr>)"
proof -
  have name: "match_category raw = Some (strip r)"
    unfolding assms(7) by (rule match_category_header [OF assms(1-6)])
  have "startswith (lstrip raw) ''#''"
    unfolding assms(7) by (rule header_is_comment [OF assms(1)])
  then show ?thesis
    using name assms(8) by (simp add: header_step)
qed

theorem category_header_detection_witness:
  "match_category ''  # cAtEgOrY :  Memory  '' = Some ''Memory'' \<and>
   process_line example_runtime Map.empty ''csv'' False
       \<lparr>printed = [], recommendation_pairs = [], current_category = ''memory''\<rparr>
       ''  # cAtEgOrY :  Memory  ''
     = Inr \<lparr>printed = [''Category,Memory''], recommendation_pairs = [],
            current_category = ''Memory''\<rparr>"
proof -
  have sp: "list_all is_space ''  ''" "list_all is_space '' ''" by code_simp+
  have kw: "lower ''cAtEgOrY'' = ''category''" by code_simp
  have st: "strip ''  Memory  '' = ''Memory''" by code_simp
  have name: "strip ''  Memory  '' \<noteq> []" "newline \<notin> set (strip ''  Memory  '')" by code_simp+
  have raw: "''  # cAtEgOrY :  Memory  ''
               = ''  '' @ ''#'' @ '' '' @ ''cAtEgOrY'' @ '' '' @ '':'' @ ''  Memory  ''"
    by simp
  have nd: "\<not> contains ''  # cAtEgOrY :  Memory  '' ''|||''" by code_simp
  show ?thesis
    using category_header_detection [OF sp(1) sp(2) sp(2) kw name raw nd,
        of example_runtime Map.empty "''csv''" False
           "\<lparr>printed = [], recommendation_pairs = [], current_category = ''memory''\<rparr>"]
    by (simp add: st category_output_def)
qed

section \<open>Substitution is exact on word boundaries\<close>

lemma flush_Nil: "flush rt vs [] = []"
  by (simp add: flush_def is_identifier_def)

lemma sub_scan_word:
  "list_all is_word_char w \<Longrightarrow> sub_scan rt vs run (w @ rest) = sub_scan rt vs (rev w @ run) rest"
  by (induction w arbitrary: run) auto

lemma sub_scan_break:
  "\<not> is_word_char c \<Longrightarrow>
   sub_scan rt vs run (a @ c # b) = sub_scan rt vs run a @ c # sub_scan rt vs [] b"
  by (induction a arbitrary: run) auto

lemma sub_scan_token_end:
  "b = [] \<or> \<not> is_word_char (hd b) \<Longrightarrow>
   sub_scan rt vs run b = flush rt vs (rev run) @ sub_scan rt vs [] b"
  by (cases b) (auto simp: flush_Nil)

lemma substitute_token:
  assumes "a = [] \<or> \<not> is_word_char (last a)" and "b = [] \<or> \<not> is_word_char (hd b)"
    and "list_all is_word_char w"
  shows "substitute_expr_variables rt (a @ w @ b) vs
           = substitute_expr_variables rt a vs @ flush rt vs w @ substitute_expr_variables rt b vs"
proof -
  have tok: "sub_scan rt vs [] (w @ b) = flush rt vs w @ sub_scan rt vs [] b"
    using sub_scan_word [OF assms(3), of rt vs "[]" b] sub_scan_token_end [OF assms(2), of rt vs "rev w"]
    by simp
  show ?thesis
  proof (cases a rule: rev_cases)
    case Nil
    then show ?thesis by (simp add: substitute_expr_variables_def tok flush_Nil)
  next
    case (snoc a' c)
    with assms(1) have c: "\<not> is_word_char c" by simp
    have "sub_scan rt vs [] (a' @ c # (w @ b)) = sub_scan rt vs [] a' @ c # sub_scan rt vs [] (w @ b)"
      by (rule sub_scan_break [OF c])
    moreover have "sub_scan rt vs [] (a' @ [c]) = sub_scan rt vs [] a' @ [c]"
      using sub_scan_break [OF c, of rt vs "[]" a' "[]"] by (simp add: flush_Nil)
    ultimately show ?thesis
      using snoc by (simp add: substitute_expr_variables_def tok)
  qed
qed

lemma sub_scan_no_word:
  "list_all (\<lambda>c. \<not> is_word_char c) e \<Longrightarrow> sub_scan rt vs [] e = e"
  by (induction e) (auto simp: flush_Nil)

lemma var1_example:
  "substitute_expr_variables rt ''Var1*2'' [''Var1'' \<mapsto> PInt 5, ''Variable1'' \<mapsto> PInt 9] = ''5*2''"
  by code_simp

text \<open>
  Claim C3. With the table \<^verbatim>\<open>{"Var1": 5, "Variable1": 9}\<close> the text \<^verbatim>\<open>Var1*2\<close> becomes
  \<^verbatim>\<open>5*2\<close>. In general, let \<open>w\<close> be a maximal token of the text: a run of word
  characters with no word character right before or right after it. The
  substitution of the whole text is the substitution of what is before, then
  the token's own result, then the substitution of what is behind; and the
  token's result is its replacement only when the token as a whole is an
  identifier and a key of the table, and the token itself otherwise. So a
  variable name that is a proper part of a longer identifier is never replaced.
  A text without any word character is returned as it is; with the rule for
  tokens this fixes the result on every text, and nothing outside the tokens
  is ever changed.
\<close>

theorem substitution_word_boundary_exact:
  "substitute_expr_variables rt ''Var1*2'' [''Var1'' \<mapsto> PInt 5, ''Variable1'' \<mapsto> PInt 9] = ''5*2'' \<and>
   ((a = [] \<or> \<not> is_word_char (last a)) \<and> (b = [] \<or> \<not> is_word_char (hd b)) \<and>
    w \<noteq> [] \<and> list_all is_word_char w \<longrightarrow>
      substitute_expr_variables rt (a @ w @ b) vs
        = substitute_expr_variables rt a vs
          @ (case vs w of None \<Rightarrow> w | Some v \<Rightarrow> if is_identifier w then repl rt vs w else w)
          @ substitute_expr_variables rt b vs) \<and>
   (list_all (\<lambda>c. \<not> is_word_char c) e \<longrightarrow> substitute_expr_variables rt e vs = e)"
proof (intro conjI impI)
  assume "list_all (\<lambda>c. \<not> is_word_char c) e"
  then show "substitute_expr_variables rt e vs = e"
    unfolding substitute_expr_variables_def by (rule sub_scan_no_word)
next
  show "substitute_expr_variables rt ''Var1*2'' [''Var1'' \<mapsto> PInt 5, ''Variable1'' \<mapsto> PInt 9] = ''5*2''"
    by (rule var1_example)
next
  assume h: "(a = [] \<or> \<not> is_word_char (last a)) \<and> (b = [] \<or> \<not> is_word_char (hd b)) \<and>
    w \<noteq> [] \<and> list_all is_word_char w"
  have "flush rt vs w = (case vs w of None \<Rightarrow> w | Some v \<Rightarrow> if is_identifier w then repl rt vs w else w)"
    by (simp add: flush_def repl_def split: option.splits)
  with h show "substitute_expr_variables rt (a @ w @ b) vs
        = substitute_expr_variables rt a vs
          @ (case vs w of None \<Rightarrow> w | Some v \<Rightarrow> if is_identifier w then repl rt vs w else w)
          @ substitute_expr_variables rt b vs"
    by (simp add: substitute_token)
qed

theorem substitution_word_boundary_exact_witness:
  "substitute_expr_variables example_runtime ''Variable1+Var1*2''
       [''Var1'' \<mapsto> PInt 5, ''Variable1'' \<mapsto> PInt 9] = ''9+5*2'' \<and>
   substitute_expr_variables example_runtime ''2*xVar1''
       [''Var1'' \<mapsto> PInt 5, ''Variable1'' \<mapsto> PInt 9] = ''2*xVar1'' \<and>
   substitute_expr_variables example_runtime ''(*) - /''
       [''Var1'' \<mapsto> PInt 5, ''Variable1'' \<mapsto> PInt 9] = ''(*) - /''"
proof -
  let ?vs = "[''Var1'' \<mapsto> PInt 5, ''Variable1'' \<mapsto> PInt (9::int)] :: string \<rightharpoonup> int pyval"
  have h1: "(''Variable1+'' = [] \<or> \<not> is_word_char (last ''Variable1+'')) \<and>
            (''*2'' = [] \<or> \<not> is_word_char (hd ''*2'')) \<and> ''Var1'' \<noteq> [] \<and>
            list_all is_word_char ''Var1''"
    by code_simp
  have h2: "(''2*'' = [] \<or> \<not> is_word_char (last ''2*'')) \<and>
            ([] = [] \<or> \<not> is_word_char (hd [])) \<and> ''xVar1'' \<noteq> [] \<and>
            list_all is_word_char ''xVar1''"
    by code_simp
  have e1: "substitute_expr_variables example_runtime ''Variable1+'' ?vs = ''9+''" by code_simp
  have e2: "substitute_expr_variables example_runtime ''*2'' ?vs = ''*2''" by code_simp
  have e3: "substitute_expr_variables example_runtime ''2*'' ?vs = ''2*''" by code_simp
  have e4: "substitute_expr_variables example_runtime [] ?vs = []" by code_simp
  have r1: "(case ?vs ''Var1'' of None \<Rightarrow> ''Var1''
             | Some v \<Rightarrow> if is_identifier ''Var1'' then repl example_runtime ?vs ''Var1'' else ''Var1'') = ''5''"
    by code_simp
  have r2: "(case ?vs ''xVar1'' of None \<Rightarrow> ''xVar1''
             | Some v \<Rightarrow> if is_identifier ''xVar1'' then repl example_runtime ?vs ''xVar1'' else ''xVar1'') = ''xVar1''"
    by code_simp
  have h3: "list_all (\<lambda>c. \<not> is_word_char c) ''(*) - /''"
    by code_simp
  note at_var1 = substitution_word_boundary_exact
        [of example_runtime "''Variable1+''" "''*2''" "''Var1''" ?vs "''(*) - /''"]
  note t1 = mp [OF conjunct1 [OF conjunct2 [OF at_var1]] h1]
  note t2 = mp [OF conjunct1 [OF conjunct2 [OF substitution_word_boundary_exact
        [of example_runtime "''2*''" "[]" "''xVar1''" ?vs "''(*) - /''"]]] h2]
  note c = mp [OF conjunct2 [OF conjunct2 [OF at_var1]] h3]
  have a: "substitute_expr_variables example_runtime ''Variable1+Var1*2'' ?vs = ''9+5*2''"
    using t1 unfolding e1 e2 r1 by simp
  have b: "substitute_expr_variables example_runtime ''2*xVar1'' ?vs = ''2*xVar1''"
    using t2 unfolding e3 e4 r2 by simp
  from a b c show ?thesis by (intro conjI)
qed

section \<open>End-to-end scenarios\<close>

lemma strip_Nil: "strip [] = []"
  by (simp add: strip_def lstrip_def rstrip_def)

lemma condition_ok_empty: "condition_ok rt [] v = False"
  by (simp add: condition_ok_def strip_Nil)

lemma rule_step:
  "strip raw \<noteq> [] \<Longrightarrow> \<not> startswith (lstrip raw) ''#'' \<Longrightarrow> parse_config_line raw = Some rule \<Longrightarrow>
   process_line rt vs m d s raw = rule_line rt vs m d s rule"
  by (simp add: process_line_def)

lemma rule_line_quiet:
  "metric_line rt m label (derived_value rt (substitute_expr_variables rt expr vs)) expr = Inr line \<Longrightarrow>
   rule_line rt vs m False s (label, cond, expr, output_text) =
     Inr (s\<lparr>printed := printed s @ [line],
            recommendation_pairs := recommendation_pairs s @
              (if condition_ok rt cond (derived_value rt (substitute_expr_variables rt expr vs))
               then [(line, output_text)] else [])\<rparr>)"
  by (simp add: rule_line_def Let_def say_def)

text \<open>
  Claim C1, amended. With the table \<^verbatim>\<open>{"Threads_connected": "12"}\<close>, the single line
  \<^verbatim>\<open>Active Threads ||| ||| Threads_connected ||| (none)\<close>, pretty mode and no
  recommendations requested, the run prints exactly \<^verbatim>\<open>Active Threads: 12.0\<close>: the
  text \<^verbatim>\<open>12\<close> evaluates to the \<^verbatim>\<open>int\<close> 12, which the display rounding turns into
  the float 12.0. The hypotheses are what Python's \<^verbatim>\<open>eval\<close> and \<^verbatim>\<open>float\<close> do at 12.
\<close>

theorem pretty_scenario_prints_rounded_float:
  assumes "py_eval rt ''12'' (build_safe_eval_env Map.empty) = Some (PInt 12)"
    and "float_of_int rt 12 = Some x" and "format_2f rt x = ''12.00''"
    and "float_of_str rt ''12.00'' = Some y" and "float_str rt y = ''12.0''"
  shows "evaluate_and_print rt [''Active Threads ||| ||| Threads_connected ||| (none)'']
           [''Threads_connected'' \<mapsto> PStr ''12''] ''pretty'' False False
         = ([''Active Threads: 12.0''], None)"
proof -
  let ?raw = "''Active Threads ||| ||| Threads_connected ||| (none)''"
  let ?vs = "[''Threads_connected'' \<mapsto> PStr ''12''] :: string \<rightharpoonup> 'a pyval"
  have shape: "strip ?raw \<noteq> []" "\<not> startswith (lstrip ?raw) ''#''"
    "parse_config_line ?raw = Some (''Active Threads'', [], ''Threads_connected'', ''(none)'')"
    by code_simp+
  have sub: "substitute_expr_variables rt ''Threads_connected'' ?vs = ''12''"
    by code_simp
  have v: "derived_value rt ''12'' = PInt 12"
    using assms(1) by (simp add: derived_value_def)
  have "round2_if_numeric rt (PInt 12) ''Threads_connected'' = Inr (PFloat y)"
    using assms(2-4) by (simp add: round2_if_numeric_def round2_number_def two_decimals_def)
  then have line: "metric_line rt ''pretty'' ''Active Threads'' (PInt 12) ''Threads_connected''
                     = Inr ''Active Threads: 12.0''"
    using assms(5) by (simp add: metric_line_def py_str_def)
  have "process_line rt ?vs ''pretty'' False initial_state ?raw
          = Inr (initial_state\<lparr>printed := [''Active Threads: 12.0'']\<rparr>)"
    using rule_line_quiet [of rt "''pretty''" "''Active Threads''" "''Threads_connected''" ?vs
        "''Active Threads: 12.0''" initial_state "[]" "''(none)''"] line
    by (simp add: rule_step [OF shape] sub v condition_ok_empty initial_state_def)
  then show ?thesis
    by (simp add: evaluate_and_print_def recommendation_section_def initial_state_def)
qed

theorem pretty_scenario_prints_rounded_float_witness:
  "evaluate_and_print example_runtime [''Active Threads ||| ||| Threads_connected ||| (none)'']
           [''Threads_connected'' \<mapsto> PStr ''12''] ''pretty'' False False
         = ([''Active Threads: 12.0''], None)"
proof -
  have e: "py_eval example_runtime ''12'' (build_safe_eval_env Map.empty) = Some (PInt 12)"
    and f: "float_of_int example_runtime 12 = Some 12"
    and g: "format_2f example_runtime 12 = ''12.00''"
    and h: "float_of_str example_runtime ''12.00'' = Some 12"
    and i: "float_str example_runtime 12 = ''12.0''"
    by code_simp+
  show ?thesis
    by (rule pretty_scenario_prints_rounded_float [OF e f g h i])
qed

theorem pretty_scenario_counterexample:
  "evaluate_and_print example_runtime [''Active Threads ||| ||| Threads_connected ||| (none)'']
           [''Threads_connected'' \<mapsto> PStr ''12''] ''pretty'' False False
         \<noteq> ([''Active Threads: 12''], None)"
  by code_simp

text \<open>
  Claim C2, amended. With the table \<^verbatim>\<open>{"Uptime": "30"}\<close>, the single line
  \<^verbatim>\<open>Uptime too low ||| < 60 ||| Uptime ||| Consider increasing uptime\<close>, csv mode
  and recommendations requested, the run prints the metric line
  \<^verbatim>\<open>Uptime too low,30\<close>, then the header of the recommendation section, then
  \<^verbatim>\<open>Uptime too low,30\<close> and \<^verbatim>\<open>Recommendation,Consider increasing uptime\<close>: csv mode
  prints the \<^verbatim>\<open>int\<close> 30 as it is. The hypotheses are what Python's \<^verbatim>\<open>eval\<close>
  returns on the two texts.
\<close>

theorem csv_scenario_prints_int:
  assumes "py_eval rt ''30'' (build_safe_eval_env Map.empty) = Some (PInt 30)"
    and "py_eval rt ''v < 60''
           (build_safe_eval_env [''re'' \<mapsto> ReModule, ''v'' \<mapsto> Val (PInt 30), ''_'' \<mapsto> Val (PInt 30)])
         = Some (PBool True)"
  shows "evaluate_and_print rt [''Uptime too low ||| < 60 ||| Uptime ||| Consider increasing uptime'']
           [''Uptime'' \<mapsto> PStr ''30''] ''csv'' False True
         = ([''Uptime too low,30'', [newline, newline] @ ''RECOMMENDATIONS:'',
             ''Uptime too low,30'', ''Recommendation,Consider increasing uptime''], None)"
proof -
  let ?raw = "''Uptime too low ||| < 60 ||| Uptime ||| Consider increasing uptime''"
  let ?vs = "[''Uptime'' \<mapsto> PStr ''30''] :: string \<rightharpoonup> 'a pyval"
  have shape: "strip ?raw \<noteq> []" "\<not> startswith (lstrip ?raw) ''#''"
    "parse_config_line ?raw
       = Some (''Uptime too low'', ''< 60'', ''Uptime'', ''Consider increasing uptime'')"
    by code_simp+
  have sub: "substitute_expr_variables rt ''Uptime'' ?vs = ''30''"
    by code_simp
  have v: "derived_value rt ''30'' = PInt 30"
    using assms(1) by (simp add: derived_value_def)
  have cond: "strip ''< 60'' = ''< 60''" "build_condition_expression ''< 60'' ''v'' = ''v < 60''"
    by code_simp+
  have ok: "condition_ok rt ''< 60'' (PInt 30)"
    using assms(2) by (simp add: condition_ok_def cond py_bool_def)
  have line: "metric_line rt ''csv'' ''Uptime too low'' (PInt 30) ''Uptime'' = Inr ''Uptime too low,30''"
    by (simp add: metric_line_def py_str_def) code_simp
  have "process_line rt ?vs ''csv'' False initial_state ?raw
          = Inr (initial_state\<lparr>printed := [''Uptime too low,30''],
                   recommendation_pairs := [(''Uptime too low,30'', ''Consider increasing uptime'')]\<rparr>)"
    using rule_line_quiet [of rt "''csv''" "''Uptime too low''" "''Uptime''" ?vs
        "''Uptime too low,30''" initial_state "''< 60''" "''Consider increasing uptime''"] line ok
    by (simp add: rule_step [OF shape] sub v initial_state_def)
  then show ?thesis
    by (simp add: evaluate_and_print_def recommendation_section_def initial_state_def)
qed

theorem csv_scenario_prints_int_witness:
  "evaluate_and_print example_runtime
       [''Uptime too low ||| < 60 ||| Uptime ||| Consider increasing uptime'']
       [''Uptime'' \<mapsto> PStr ''30''] ''csv'' False True
     = ([''Uptime too low,30'', [newline, newline] @ ''RECOMMENDATIONS:'',
         ''Uptime too low,30'', ''Recommendation,Consider increasing uptime''], None)"
proof -
  have e: "py_eval example_runtime ''30'' (build_safe_eval_env Map.empty) = Some (PInt 30)"
    and c: "py_eval example_runtime ''v < 60''
           (build_safe_eval_env [''re'' \<mapsto> ReModule, ''v'' \<mapsto> Val (PInt 30), ''_'' \<mapsto> Val (PInt 30)])
         = Some (PBool True)"
    by code_simp+
  show ?thesis
    by (rule csv_scenario_prints_int [OF e c])
qed

theorem csv_scenario_counterexample:
  "''Uptime too low,30.0'' \<notin> set (fst (evaluate_and_print example_runtime
       [''Uptime too low ||| < 60 ||| Uptime ||| Consider increasing uptime'']
       [''Uptime'' \<mapsto> PStr ''30''] ''csv'' False True))"
  by code_simp

section \<open>Display rounding of a large integer\<close>

text \<open>
  Claim C5: the code departs from it. In pretty mode the display rounding of
  an \<^verbatim>\<open>int\<close> calls \<^verbatim>\<open>float\<close> on it outside any \<^verbatim>\<open>try\<close>. The rule below has an empty
  condition and the value \<^verbatim>\<open>10**400\<close>, too large for a float: the
  \<^verbatim>\<open>OverflowError\<close> ends the run before the metric line is printed.
\<close>

theorem overflow_ends_run_before_metric_line:
  "evaluate_and_print example_runtime [''Big ||| ||| 10**400 ||| none'', ''Up ||| ||| 30 ||| none'']
     Map.empty ''pretty'' False False = ([], Some OverflowError)"
  by code_simp

section \<open>Evaluation failures\<close>

lemma condition_ok_iff:
  "condition_ok rt cond v \<longleftrightarrow>
     strip cond \<noteq> [] \<and>
     (\<exists>r. py_eval rt (build_condition_expression (strip cond) ''v'')
             (build_safe_eval_env [''re'' \<mapsto> ReModule, ''v'' \<mapsto> Val v, ''_'' \<mapsto> Val v]) = Some r \<and>
          py_bool rt r)"
  by (auto simp: condition_ok_def Let_def split: option.splits)

lemma rule_line_result:
  "metric_line rt m label (derived_value rt (substitute_expr_variables rt expr vs)) expr = Inr line \<Longrightarrow>
   rule_line rt vs m d s (label, cond, expr, output_text) =
     Inr (s\<lparr>printed := printed s @
              (if d then [''expr starts as '' @ expr,
                          ''expr after parsing is '' @ substitute_expr_variables rt expr vs,
                          ''expr evals to '' @ [CHR 0x27]
                            @ py_str rt (derived_value rt (substitute_expr_variables rt expr vs))
                            @ [CHR 0x27]]
               else []) @ [line] @
              (if d \<and> condition_ok rt cond (derived_value rt (substitute_expr_variables rt expr vs))
               then [CHR 0x09 # label @ '' matches '' @ strip cond] else []),
            recommendation_pairs := recommendation_pairs s @
              (if condition_ok rt cond (derived_value rt (substitute_expr_variables rt expr vs))
               then [(line, output_text)] else [])\<rparr>)"
  by (simp add: rule_line_def Let_def say_def)

lemma metric_line_string:
  "\<exists>line. metric_line rt m label (PStr t) expr = Inr line \<and>
     (m = ''csv'' \<or> mentions_version expr \<or> \<not> is_numeric_string t \<longrightarrow>
        line = label @ (if m = ''csv'' then '','' else '': '') @ t)"
  by (auto simp: metric_line_def round2_if_numeric_def py_str_def split: option.splits)

text \<open>
  Claim C6, amended. When \<^verbatim>\<open>eval\<close> raises on the substituted expression text, the
  rule is not aborted: the text itself becomes the derived value, a string. Its
  metric line always exists; it shows the text verbatim in csv mode, and in
  pretty mode whenever the display rounding leaves strings alone (the
  expression mentions ``version'', or the text is not a numeric string). The
  condition is then checked against that string, and the following lines are
  processed from the state so reached. (In pretty mode a text that is a numeric
  string, such as \<^verbatim>\<open>08\<close>, is display-rounded like any other numeric string.)
\<close>

theorem eval_failure_falls_back_to_text:
  assumes "strip raw \<noteq> []" and "\<not> startswith (lstrip raw) ''#''"
    and "parse_config_line raw = Some (label, cond, expr, output_text)"
    and "py_eval rt (substitute_expr_variables rt expr vs) (build_safe_eval_env Map.empty) = None"
  shows "\<exists>line.
           metric_line rt m label (PStr (substitute_expr_variables rt expr vs)) expr = Inr line \<and>
           (m = ''csv'' \<or> mentions_version expr \<or>
            \<not> is_numeric_string (substitute_expr_variables rt expr vs) \<longrightarrow>
              line = label @ (if m = ''csv'' then '','' else '': '') @ substitute_expr_variables rt expr vs) \<and>
           process_lines rt vs m d s (raw # rest) =
             process_lines rt vs m d
               (s\<lparr>printed := printed s @
                    (if d then [''expr starts as '' @ expr,
                                ''expr after parsing is '' @ substitute_expr_variables rt expr vs,
                                ''expr evals to '' @ [CHR 0x27] @ substitute_expr_variables rt expr vs
                                  @ [CHR 0x27]]
                     else []) @ [line] @
                    (if d \<and> condition_ok rt cond (PStr (substitute_expr_variables rt expr vs))
                     then [CHR 0x09 # label @ '' matches '' @ strip cond] else []),
                  recommendation_pairs := recommendation_pairs s @
                    (if condition_ok rt cond (PStr (substitute_expr_variables rt expr vs))
                     then [(line, output_text)] else [])\<rparr>)
               rest"
proof -
  let ?t = "substitute_expr_variables rt expr vs"
  have v: "derived_value rt ?t = PStr ?t"
    using assms(4) by (simp add: derived_value_def)
  obtain line where line: "metric_line rt m label (PStr ?t) expr = Inr line"
    and verbatim: "m = ''csv'' \<or> mentions_version expr \<or> \<not> is_numeric_string ?t \<longrightarrow>
        line = label @ (if m = ''csv'' then '','' else '': '') @ ?t"
    using metric_line_string [of rt m label ?t expr] by blast
  have "process_line rt vs m d s raw = rule_line rt vs m d s (label, cond, expr, output_text)"
    by (rule rule_step [OF assms(1-3)])
  also have "\<dots> = Inr (s\<lparr>printed := printed s @
                    (if d then [''expr starts as '' @ expr,
                                ''expr after parsing is '' @ ?t,
                                ''expr evals to '' @ [CHR 0x27] @ ?t @ [CHR 0x27]]
                     else []) @ [line] @
                    (if d \<and> condition_ok rt cond (PStr ?t)
                     then [CHR 0x09 # label @ '' matches '' @ strip cond] else []),
                  recommendation_pairs := recommendation_pairs s @
                    (if condition_ok rt cond (PStr ?t) then [(line, output_text)] else [])\<rparr>)"
    using rule_line_result [of rt m label expr vs line d s cond output_text] line
    by (simp add: v py_str_def)
  finally have step: "process_line rt vs m d s raw = Inr (s\<lparr>printed := printed s @
                    (if d then [''expr starts as '' @ expr,
                                ''expr after parsing is '' @ ?t,
                                ''expr evals to '' @ [CHR 0x27] @ ?t @ [CHR 0x27]]
                     else []) @ [line] @
                    (if d \<and> condition_ok rt cond (PStr ?t)
                     then [CHR 0x09 # label @ '' matches '' @ strip cond] else []),
                  recommendation_pairs := recommendation_pairs s @
                    (if condition_ok rt cond (PStr ?t) then [(line, output_text)] else [])\<rparr>)" .
  show ?thesis
  proof (intro exI [of _ line] conjI)
    show "metric_line rt m label (PStr ?t) expr = Inr line"
      by (rule line)
    show "m = ''csv'' \<or> mentions_version expr \<or> \<not> is_numeric_string ?t \<longrightarrow>
        line = label @ (if m = ''csv'' then '','' else '': '') @ ?t"
      by (rule verbatim)
    show "process_lines rt vs m d s (raw # rest) =
             process_lines rt vs m d
               (s\<lparr>printed := printed s @
                    (if d then [''expr starts as '' @ expr,
                                ''expr after parsing is '' @ ?t,
                                ''expr evals to '' @ [CHR 0x27] @ ?t @ [CHR 0x27]]
                     else []) @ [line] @
                    (if d \<and> condition_ok rt cond (PStr ?t)
                     then [CHR 0x09 # label @ '' matches '' @ strip cond] else []),
                  recommendation_pairs := recommendation_pairs s @
                    (if condition_ok rt cond (PStr ?t) then [(line, output_text)] else [])\<rparr>)
               rest"
      by (simp only: process_lines.simps step sum.case)
  qed
qed

theorem eval_failure_falls_back_to_text_witness:
  "process_lines example_runtime Map.empty ''csv'' False initial_state
       [''Pad ||| ||| 08 ||| none'', ''Up ||| ||| 30 ||| none'']
     = Inr \<lparr>printed = [''Pad,08'', ''Up,30''], recommendation_pairs = [], current_category = []\<rparr>"
proof -
  let ?vs = "Map.empty :: string \<rightharpoonup> int pyval"
  have shape: "strip ''Pad ||| ||| 08 ||| none'' \<noteq> []"
    "\<not> startswith (lstrip ''Pad ||| ||| 08 ||| none'') ''#''"
    "parse_config_line ''Pad ||| ||| 08 ||| none'' = Some (''Pad'', [], ''08'', ''none'')"
    by code_simp+
  have sub: "substitute_expr_variables example_runtime ''08'' ?vs = ''08''" by code_simp
  have fails: "py_eval example_runtime (substitute_expr_variables example_runtime ''08'' ?vs)
                 (build_safe_eval_env Map.empty) = None"
    by code_simp
  have rest: "process_lines example_runtime ?vs ''csv'' False
                (initial_state\<lparr>printed := printed initial_state @ [] @ [''Pad'' @ '','' @ ''08''] @ [],
                   recommendation_pairs := recommendation_pairs initial_state @ []\<rparr>)
                [''Up ||| ||| 30 ||| none'']
     = Inr \<lparr>printed = [''Pad,08'', ''Up,30''], recommendation_pairs = [], current_category = []\<rparr>"
    by code_simp
  from eval_failure_falls_back_to_text [OF shape fails, of "''csv''" False initial_state
      "[''Up ||| ||| 30 ||| none'']"]
  obtain line where "line = ''Pad'' @ '','' @ ''08''"
    and "process_lines example_runtime ?vs ''csv'' False initial_state
           [''Pad ||| ||| 08 ||| none'', ''Up ||| ||| 30 ||| none'']
         = process_lines example_runtime ?vs ''csv'' False
             (initial_state\<lparr>printed := printed initial_state @ [] @ [line] @ [],
                recommendation_pairs := recommendation_pairs initial_state @ []\<rparr>)
             [''Up ||| ||| 30 ||| none'']"
    by (auto simp: sub condition_ok_empty)
  with rest show ?thesis by simp
qed

theorem eval_failure_display_counterexample:
  "py_eval example_runtime (substitute_expr_variables example_runtime ''08'' Map.empty)
     (build_safe_eval_env Map.empty) = None \<and>
   evaluate_and_print example_runtime [''Pad ||| ||| 08 ||| none''] Map.empty ''pretty'' False False
     = ([''Pad: 8.0''], None)"
  by code_simp

end
